theory Spec2Isabelle
  imports Main
begin

section \<open>Python values: errors, results, list indexing, decimal names\<close>

text \<open>
  The exceptions \<^verbatim>\<open>model.py\<close> can raise. A computation that raises returns \<open>Inl\<close> of
  the exception, one that returns gives \<open>Inr\<close> of its value.
  \<open>ShapeMismatchError\<close> stands for the error the tensor library raises when the size of
  a tensor does not fit the module or the operation it is given to.
\<close>

datatype py_error =
    ValueError string
  | AttributeError string
  | NameError string
  | TypeError string
  | RuntimeError string
  | IndexError
  | ShapeMismatchError

definition bindE :: "py_error + 'a \<Rightarrow> ('a \<Rightarrow> py_error + 'b) \<Rightarrow> py_error + 'b" where
  "bindE r f = (case r of Inl e \<Rightarrow> Inl e | Inr v \<Rightarrow> f v)"

text \<open>A \<^verbatim>\<open>for\<close> loop over a list of indices whose body may raise: the first exception
  ends the loop.\<close>

fun foldE :: "('s \<Rightarrow> nat \<Rightarrow> py_error + 's) \<Rightarrow> 's \<Rightarrow> nat list \<Rightarrow> py_error + 's" where
  "foldE body s [] = Inr s"
| "foldE body s (i # idxs) = bindE (body s i) (\<lambda>s'. foldE body s' idxs)"

text \<open>\<^verbatim>\<open>xs[i]\<close> on a list: an index at or above zero is a position from the left,
  one below zero a position from the right (\<open>-1\<close> is the last element); a position the
  list does not have raises \<open>IndexError\<close>.\<close>

definition py_getitem :: "'a list \<Rightarrow> int \<Rightarrow> py_error + 'a" where
  "py_getitem xs i =
     (if 0 \<le> i
      then (if nat i < length xs then Inr (xs ! nat i) else Inl IndexError)
      else (if nat (- i) \<le> length xs then Inr (xs ! (length xs - nat (- i)))
            else Inl IndexError))"

text \<open>\<^verbatim>\<open>str(i)\<close> for a non-negative integer: its decimal digits.\<close>

definition digit :: "nat \<Rightarrow> char" where
  "digit d = char_of (48 + d)"

function str :: "nat \<Rightarrow> string" where
  "str n = (if n < 10 then [digit n] else str (n div 10) @ [digit (n mod 10)])"
  by pat_completeness auto
termination
  by (relation "measure id") auto

declare str.simps [simp del]

section \<open>Tensors and the tensor library\<close>

text \<open>
  A tensor of shape \<open>(batch, chans, height, width)\<close>; \<open>elem t n c h w\<close> is its entry at
  batch index \<open>n\<close>, channel \<open>c\<close>, row \<open>h\<close> and column \<open>w\<close>. The entries are of any type
  \<open>'a\<close>: nothing below computes with them.
\<close>

record 'a tensor =
  batch :: nat
  chans :: nat
  height :: nat
  width :: nat
  elem :: "nat \<Rightarrow> nat \<Rightarrow> nat \<Rightarrow> nat \<Rightarrow> 'a"

type_synonym 'a kernel = "'a tensor \<Rightarrow> nat \<Rightarrow> nat \<Rightarrow> nat \<Rightarrow> nat \<Rightarrow> 'a"

text \<open>The library's modules, as the hyperparameters \<^verbatim>\<open>model.py\<close> builds them with
  (\<open>drop_percent = 20\<close> is \<^verbatim>\<open>p=0.2\<close>).\<close>

record BatchNorm2d =
  num_features :: nat

record Conv2d =
  in_channels :: nat
  out_channels :: nat
  kernel_size :: nat
  padding :: nat
  bias :: bool

record Dropout2d =
  drop_percent :: nat

record MaxPool2d =
  pool_kernel :: nat
  pool_stride :: nat

record ConvTranspose2d =
  tin_channels :: nat
  tout_channels :: nat
  tkernel_size :: nat
  tstride :: nat

text \<open>
  The numbers the library computes (learned weights, running statistics, the dropout
  mask of a call) are not part of the repository. They enter every forward pass as a
  backend: one function per operation from the module and its input to the entries of
  the output. Every theorem below holds for every backend.
\<close>

record 'a torch =
  batch_norm :: "BatchNorm2d \<Rightarrow> 'a kernel"
  relu :: "'a kernel"
  conv2d :: "Conv2d \<Rightarrow> 'a kernel"
  dropout2d :: "Dropout2d \<Rightarrow> 'a kernel"
  max_pool2d :: "MaxPool2d \<Rightarrow> 'a kernel"
  conv_transpose2d :: "ConvTranspose2d \<Rightarrow> 'a kernel"

text \<open>
  Modelled from the spec: \<^verbatim>\<open>torch.nn.BatchNorm2d\<close> is the library's, not the
  repository's. Section 4.1 (a): it normalizes across channels, the shape is kept;
  section 7 (b): a tensor whose channel count is not the module's declared input channel
  count is a shape mismatch error.
\<close>

definition BatchNorm2d_forward :: "'a torch \<Rightarrow> BatchNorm2d \<Rightarrow> 'a tensor \<Rightarrow> py_error + 'a tensor" where
  "BatchNorm2d_forward lib m x =
     (if chans x = num_features m then Inr (x\<lparr>elem := batch_norm lib m x\<rparr>)
      else Inl ShapeMismatchError)"

text \<open>Modelled from the spec: \<^verbatim>\<open>torch.nn.functional.relu\<close>, section 4.1 (b); an
  entrywise nonlinearity, the shape is kept.\<close>

definition F_relu :: "'a torch \<Rightarrow> 'a tensor \<Rightarrow> 'a tensor" where
  "F_relu lib x = x\<lparr>elem := relu lib x\<rparr>"

text \<open>
  Modelled from the spec: \<^verbatim>\<open>torch.nn.Conv2d\<close> with stride 1, sections 4.1 (c) and 4.2;
  it maps \<open>in_channels\<close> channels to \<open>out_channels\<close> channels. A side of the output is
  the side of the input plus twice the padding minus \<open>kernel_size - 1\<close>: the same side
  for the two convolutions of the repository (3x3 with padding 1, 1x1 with padding 0),
  as the spec says. Section 7 (b) for the channel count.
\<close>

definition Conv2d_forward :: "'a torch \<Rightarrow> Conv2d \<Rightarrow> 'a tensor \<Rightarrow> py_error + 'a tensor" where
  "Conv2d_forward lib m x =
     (if chans x = in_channels m
      then Inr \<lparr>batch = batch x, chans = out_channels m,
                height = height x + 2 * padding m + 1 - kernel_size m,
                width = width x + 2 * padding m + 1 - kernel_size m,
                elem = conv2d lib m x\<rparr>
      else Inl ShapeMismatchError)"

text \<open>Modelled from the spec: \<^verbatim>\<open>torch.nn.Dropout2d\<close>, section 4.1 (d); channel-wise
  dropout, the shape is kept.\<close>

definition Dropout2d_forward :: "'a torch \<Rightarrow> Dropout2d \<Rightarrow> 'a tensor \<Rightarrow> 'a tensor" where
  "Dropout2d_forward lib m x = x\<lparr>elem := dropout2d lib m x\<rparr>"

text \<open>Modelled from the spec: \<^verbatim>\<open>torch.nn.MaxPool2d\<close> with the window equal to the
  stride, section 4.2; each spatial side is divided by the stride, rounding down.\<close>

definition MaxPool2d_forward :: "'a torch \<Rightarrow> MaxPool2d \<Rightarrow> 'a tensor \<Rightarrow> 'a tensor" where
  "MaxPool2d_forward lib m x =
     \<lparr>batch = batch x, chans = chans x,
      height = height x div pool_stride m, width = width x div pool_stride m,
      elem = max_pool2d lib m x\<rparr>"

text \<open>Modelled from the spec: \<^verbatim>\<open>torch.nn.ConvTranspose2d\<close>, section 4.3; a side \<open>H\<close>
  becomes \<open>(H - 1) * stride + kernel\<close>. Section 7 (b) for the channel count. The
  subtraction is that of the natural numbers: the formula is meant for sides of at
  least 1, and no theorem below applies it to an empty side.\<close>

definition ConvTranspose2d_forward ::
    "'a torch \<Rightarrow> ConvTranspose2d \<Rightarrow> 'a tensor \<Rightarrow> py_error + 'a tensor" where
  "ConvTranspose2d_forward lib m x =
     (if chans x = tin_channels m
      then Inr \<lparr>batch = batch x, chans = tout_channels m,
                height = (height x - 1) * tstride m + tkernel_size m,
                width = (width x - 1) * tstride m + tkernel_size m,
                elem = conv_transpose2d lib m x\<rparr>
      else Inl ShapeMismatchError)"

text \<open>
  Modelled from the spec: \<^verbatim>\<open>torch.cat([a, b], dim)\<close>, "channel-wise concatenation" of
  section 6 for \<open>dim = 1\<close>: the entries of \<open>a\<close> come first along axis \<open>dim\<close>, then those
  of \<open>b\<close>; the other three sizes must agree (section 7 (b)).
\<close>

definition torch_cat :: "'a tensor \<Rightarrow> 'a tensor \<Rightarrow> nat \<Rightarrow> py_error + 'a tensor" where
  "torch_cat a b dim =
     (if dim = 0 then
        (if chans a = chans b \<and> height a = height b \<and> width a = width b
         then Inr \<lparr>batch = batch a + batch b, chans = chans a, height = height a, width = width a,
                   elem = (\<lambda>n c h w. if n < batch a then elem a n c h w else elem b (n - batch a) c h w)\<rparr>
         else Inl ShapeMismatchError)
      else if dim = 1 then
        (if batch a = batch b \<and> height a = height b \<and> width a = width b
         then Inr \<lparr>batch = batch a, chans = chans a + chans b, height = height a, width = width a,
                   elem = (\<lambda>n c h w. if c < chans a then elem a n c h w else elem b n (c - chans a) h w)\<rparr>
         else Inl ShapeMismatchError)
      else if dim = 2 then
        (if batch a = batch b \<and> chans a = chans b \<and> width a = width b
         then Inr \<lparr>batch = batch a, chans = chans a, height = height a + height b, width = width a,
                   elem = (\<lambda>n c h w. if h < height a then elem a n c h w else elem b n c (h - height a) w)\<rparr>
         else Inl ShapeMismatchError)
      else if dim = 3 then
        (if batch a = batch b \<and> chans a = chans b \<and> height a = height b
         then Inr \<lparr>batch = batch a, chans = chans a, height = height a, width = width a + width b,
                   elem = (\<lambda>n c h w. if w < width a then elem a n c h w else elem b n c h (w - width a))\<rparr>
         else Inl ShapeMismatchError)
      else Inl IndexError)"

text \<open>\<^verbatim>\<open>out[:, k:, ...]\<close>: the channels from index \<open>k\<close> on, in order; none when \<open>k\<close> is
  the channel count or more.\<close>

definition slice_channels_from :: "'a tensor \<Rightarrow> nat \<Rightarrow> 'a tensor" where
  "slice_channels_from out k =
     \<lparr>batch = batch out, chans = chans out - k, height = height out, width = width out,
      elem = (\<lambda>n c h w. elem out n (c + k) h w)\<rparr>"

section \<open>DenseLayer\<close>

record DenseLayer =
  dl_n_channels :: nat
  dl_growth_rate :: nat
  dl_bn :: BatchNorm2d
  dl_conv :: Conv2d
  dl_do :: Dropout2d

definition DenseLayer_init :: "nat \<Rightarrow> nat \<Rightarrow> DenseLayer" where
  "DenseLayer_init n_channels growth_rate =
     \<lparr>dl_n_channels = n_channels, dl_growth_rate = growth_rate,
      dl_bn = \<lparr>num_features = n_channels\<rparr>,
      dl_conv = \<lparr>in_channels = n_channels, out_channels = growth_rate,
                 kernel_size = 3, padding = 1, bias = False\<rparr>,
      dl_do = \<lparr>drop_percent = 20\<rparr>\<rparr>"

definition DenseLayer_forward :: "'a torch \<Rightarrow> DenseLayer \<Rightarrow> 'a tensor \<Rightarrow> py_error + 'a tensor" where
  "DenseLayer_forward lib self x =
     bindE (BatchNorm2d_forward lib (dl_bn self) x) (\<lambda>normed.
     let out0 = F_relu lib normed in
     bindE (Conv2d_forward lib (dl_conv self) out0) (\<lambda>out1.
     let out2 = Dropout2d_forward lib (dl_do self) out1 in
     torch_cat x out2 1))"

section \<open>TransitionDown and TransitionUp\<close>

record TransitionDown =
  td_n_channels_in :: nat
  td_n_channels_out :: nat
  td_bn :: BatchNorm2d
  td_conv :: Conv2d
  td_pool :: MaxPool2d
  td_do :: Dropout2d

text \<open>\<^verbatim>\<open>n_channels_out=None\<close> is the default: the argument is an option.\<close>

definition TransitionDown_init :: "nat \<Rightarrow> nat option \<Rightarrow> TransitionDown" where
  "TransitionDown_init n_channels_in n_channels_out =
     (let out = (case n_channels_out of Some c \<Rightarrow> c | None \<Rightarrow> n_channels_in) in
      \<lparr>td_n_channels_in = n_channels_in, td_n_channels_out = out,
       td_bn = \<lparr>num_features = n_channels_in\<rparr>,
       td_conv = \<lparr>in_channels = n_channels_in, out_channels = out,
                  kernel_size = 1, padding = 0, bias = True\<rparr>,
       td_pool = \<lparr>pool_kernel = 2, pool_stride = 2\<rparr>,
       td_do = \<lparr>drop_percent = 20\<rparr>\<rparr>)"

definition TransitionDown_forward ::
    "'a torch \<Rightarrow> TransitionDown \<Rightarrow> 'a tensor \<Rightarrow> py_error + 'a tensor" where
  "TransitionDown_forward lib self x =
     bindE (BatchNorm2d_forward lib (td_bn self) x) (\<lambda>normed.
     let out0 = F_relu lib normed in
     bindE (Conv2d_forward lib (td_conv self) out0) (\<lambda>out1.
     let out2 = Dropout2d_forward lib (td_do self) out1;
         pooled = MaxPool2d_forward lib (td_pool self) out2
     in Inr pooled))"

record TransitionUp =
  tu_n_channels_in :: nat
  tu_n_channels_out :: nat
  tu_transconv :: ConvTranspose2d

definition TransitionUp_init :: "nat \<Rightarrow> nat option \<Rightarrow> TransitionUp" where
  "TransitionUp_init n_channels_in n_channels_out =
     (let out = (case n_channels_out of Some c \<Rightarrow> c | None \<Rightarrow> n_channels_in) in
      \<lparr>tu_n_channels_in = n_channels_in, tu_n_channels_out = out,
       tu_transconv = \<lparr>tin_channels = n_channels_in, tout_channels = out,
                       tkernel_size = 3, tstride = 2\<rparr>\<rparr>)"

definition TransitionUp_forward ::
    "'a torch \<Rightarrow> TransitionUp \<Rightarrow> 'a tensor \<Rightarrow> py_error + 'a tensor" where
  "TransitionUp_forward lib self x = ConvTranspose2d_forward lib (tu_transconv self) x"

section \<open>DenseBlock\<close>

text \<open>
  \<^verbatim>\<open>nn.Sequential(*layers)\<close> applied to a tensor: the layers one after another, each on
  the output of the one before; the first exception ends the pass.
\<close>

definition Sequential_forward ::
    "'a torch \<Rightarrow> DenseLayer list \<Rightarrow> 'a tensor \<Rightarrow> py_error + 'a tensor" where
  "Sequential_forward lib layers x =
     foldl (\<lambda>r l. bindE r (DenseLayer_forward lib l)) (Inr x) layers"

text \<open>\<^verbatim>\<open>__init__\<close> stores \<open>n_layers\<close>, \<open>n_channels\<close>, \<open>growth_rate\<close>, \<open>n_channels_out\<close>
  and \<open>block\<close>; the argument \<open>keep_input\<close> is used once and not stored.\<close>

record DenseBlock =
  db_n_layers :: nat
  db_n_channels :: nat
  db_growth_rate :: nat
  db_n_channels_out :: nat
  db_block :: "DenseLayer list"

text \<open>\<^verbatim>\<open>_build_block\<close>: the loop carries the local \<open>n_channels\<close> and the list \<open>layers\<close>.\<close>

definition build_block :: "nat \<Rightarrow> nat \<Rightarrow> nat \<Rightarrow> DenseLayer list" where
  "build_block n_layers n_channels growth_rate =
     snd (foldl (\<lambda>(n_channels, layers) i.
                   (n_channels + growth_rate, layers @ [DenseLayer_init n_channels growth_rate]))
                (n_channels, []) [0..<n_layers])"

definition DenseBlock_init :: "nat \<Rightarrow> nat \<Rightarrow> nat \<Rightarrow> bool \<Rightarrow> DenseBlock" where
  "DenseBlock_init n_layers n_channels growth_rate keep_input =
     \<lparr>db_n_layers = n_layers, db_n_channels = n_channels, db_growth_rate = growth_rate,
      db_n_channels_out = (if keep_input then n_channels + growth_rate * n_layers
                           else growth_rate * n_layers),
      db_block = build_block n_layers n_channels growth_rate\<rparr>"

text \<open>
  What a bare name of \<^verbatim>\<open>DenseBlock.forward\<close> can resolve to. A name is looked up in
  the frame of the call (\<open>self\<close>, \<open>x\<close>, \<open>out\<close>), then among the names bound at module
  level (the imports of lines 1 to 8 and the five classes); no builtin is named
  \<open>keep_input\<close> or \<open>n_channels\<close>. A name found nowhere raises \<open>NameError\<close>.
\<close>

datatype 'a pyval = PyTensor "'a tensor" | PyInt int | PyBool bool | PyObject

definition module_globals :: "(string \<times> 'a pyval) list" where
  "module_globals =
     map (\<lambda>name. (name, PyObject))
       [''torch'', ''nn'', ''F'', ''init'', ''Variable'', ''models'', ''np'', ''copy'',
        ''DenseLayer'', ''TransitionDown'', ''TransitionUp'', ''DenseBlock'', ''DenseNet103'']"

definition load_name :: "(string \<times> 'a pyval) list \<Rightarrow> string \<Rightarrow> py_error + 'a pyval" where
  "load_name frame name =
     (case map_of (frame @ module_globals) name of
        Some v \<Rightarrow> Inr v
      | None \<Rightarrow> Inl (NameError name))"

text \<open>\<^verbatim>\<open>not v\<close>. An object with neither \<^verbatim>\<open>__bool__\<close> nor \<^verbatim>\<open>__len__\<close> is true; the
  truth value of a tensor with more than one entry is an error of the library (that of a
  one-entry tensor is the entry's, which the model does not hold).\<close>

definition py_not :: "'a pyval \<Rightarrow> py_error + bool" where
  "py_not v =
     (case v of
        PyBool b \<Rightarrow> Inr (\<not> b)
      | PyInt i \<Rightarrow> Inr (i = 0)
      | PyObject \<Rightarrow> Inr False
      | PyTensor t \<Rightarrow> Inl (RuntimeError ''Boolean value of Tensor is ambiguous''))"

text \<open>\<^verbatim>\<open>out[:, v:, ...]\<close>: a slice bound is an integer (a negative one counts from the
  end, \<^verbatim>\<open>True\<close> is 1).\<close>

definition py_slice_channels :: "'a tensor \<Rightarrow> 'a pyval \<Rightarrow> py_error + 'a tensor" where
  "py_slice_channels out v =
     (case v of
        PyInt i \<Rightarrow> Inr (slice_channels_from out
                       (if i < 0 then nat (int (chans out) + i) else nat i))
      | PyBool b \<Rightarrow> Inr (slice_channels_from out (if b then 1 else 0))
      | PyObject \<Rightarrow> Inl (TypeError ''slice indices must be integers'')
      | PyTensor t \<Rightarrow> Inl (TypeError ''slice indices must be integers''))"

definition DenseBlock_forward :: "'a torch \<Rightarrow> DenseBlock \<Rightarrow> 'a tensor \<Rightarrow> py_error + 'a tensor" where
  "DenseBlock_forward lib self x =
     bindE (Sequential_forward lib (db_block self) x) (\<lambda>out.
     let frame = [(''self'', PyObject), (''x'', PyTensor x), (''out'', PyTensor out)] in
     bindE (load_name frame ''keep_input'') (\<lambda>keep_input.
     bindE (py_not keep_input) (\<lambda>omit.
     if omit
     then bindE (load_name frame ''n_channels'') (\<lambda>n_channels. py_slice_channels out n_channels)
     else Inr out)))"

section \<open>DenseNet103\<close>

text \<open>
  Layer counts, channel counts and \<open>n_pool\<close> are natural numbers, as the spec's
  configuration values are; Python's default arguments (\<open>growth_rate = 16\<close>,
  \<open>keep_input = True\<close>, \<open>n_channels_out = None\<close>) are passed explicitly.
\<close>

text \<open>
  The network object: its attributes by name. \<^verbatim>\<open>setattr(self, name, v)\<close> and
  \<^verbatim>\<open>self.name = v\<close> store a value, \<^verbatim>\<open>self.name\<close> and \<^verbatim>\<open>getattr(self, name)\<close> read one
  and raise \<open>AttributeError\<close> for a name that was never stored (\<^verbatim>\<open>nn.Module\<close> and the
  class define neither \<open>n_channels\<close> nor \<open>dblock4\<close>).
\<close>

datatype attr =
    AInt nat
  | AList "nat list"
  | AConv Conv2d
  | ABlock DenseBlock
  | ADown TransitionDown
  | AUp TransitionUp

type_synonym object = "string \<rightharpoonup> attr"

definition getattr :: "object \<Rightarrow> string \<Rightarrow> py_error + attr" where
  "getattr self name = (case self name of Some v \<Rightarrow> Inr v | None \<Rightarrow> Inl (AttributeError name))"

text \<open>The builtin \<^verbatim>\<open>getattr\<close> called with a name and no object, as \<^verbatim>\<open>forward\<close> calls it.\<close>

definition getattr1 :: "string \<Rightarrow> py_error + attr" where
  "getattr1 name = Inl (TypeError ''getattr expected at least 2 arguments, got 1'')"

text \<open>An attribute used as a channel count.\<close>

definition as_int :: "attr \<Rightarrow> py_error + nat" where
  "as_int a = (case a of AInt n \<Rightarrow> Inr n | _ \<Rightarrow> Inl (TypeError ''an integer is required''))"

text \<open>\<^verbatim>\<open>a.n_channels_out\<close>.\<close>

definition n_channels_out_of :: "attr \<Rightarrow> py_error + nat" where
  "n_channels_out_of a =
     (case a of
        ABlock b \<Rightarrow> Inr (db_n_channels_out b)
      | ADown t \<Rightarrow> Inr (td_n_channels_out t)
      | AUp t \<Rightarrow> Inr (tu_n_channels_out t)
      | _ \<Rightarrow> Inl (AttributeError ''n_channels_out''))"

text \<open>\<^verbatim>\<open>a(x)\<close>: the forward pass of a module; an integer or a list cannot be called.\<close>

definition call :: "'a torch \<Rightarrow> attr \<Rightarrow> 'a tensor \<Rightarrow> py_error + 'a tensor" where
  "call lib a x =
     (case a of
        AConv m \<Rightarrow> Conv2d_forward lib m x
      | ABlock b \<Rightarrow> DenseBlock_forward lib b x
      | ADown t \<Rightarrow> TransitionDown_forward lib t x
      | AUp t \<Rightarrow> TransitionUp_forward lib t x
      | _ \<Rightarrow> Inl (TypeError ''object is not callable''))"

text \<open>The body of the loop of the downsampling path of \<^verbatim>\<open>__init__\<close> (lines 212 to 219);
  the loop carries \<open>self\<close> and \<open>down_channels\<close>.\<close>

definition down_body ::
    "nat \<Rightarrow> nat list \<Rightarrow> object \<times> nat \<Rightarrow> nat \<Rightarrow> py_error + object \<times> nat" where
  "down_body growth_rate n_layers_down s i =
     (case s of (self, down_channels) \<Rightarrow>
        bindE (py_getitem n_layers_down (int i)) (\<lambda>n_layers.
        let self = self(''down_dblock'' @ str i \<mapsto>
                     ABlock (DenseBlock_init n_layers down_channels growth_rate True)) in
        bindE (getattr self (''down_dblock'' @ str i)) (\<lambda>blk.
        bindE (n_channels_out_of blk) (\<lambda>down_channels.
        let self = self(''td'' @ str i \<mapsto> ADown (TransitionDown_init down_channels None))
        in Inr (self, down_channels)))))"

text \<open>The body of the loop of the upsampling path of \<^verbatim>\<open>__init__\<close> (lines 228 to 236);
  the loop carries \<open>self\<close> and \<open>up_channels\<close>.\<close>

definition up_body ::
    "nat \<Rightarrow> nat list \<Rightarrow> object \<times> nat \<Rightarrow> nat \<Rightarrow> py_error + object \<times> nat" where
  "up_body growth_rate n_layers_up s i =
     (case s of (self, up_channels) \<Rightarrow>
        let self = self(''tu'' @ str i \<mapsto> AUp (TransitionUp_init up_channels None)) in
        bindE (py_getitem n_layers_up (int i)) (\<lambda>n_layers.
        let self = self(''up_dblock'' @ str i \<mapsto>
                     ABlock (DenseBlock_init n_layers up_channels growth_rate False)) in
        bindE (getattr self (''up_dblock'' @ str i)) (\<lambda>blk.
        bindE (n_channels_out_of blk) (\<lambda>up_channels.
        Inr (self, up_channels)))))"

text \<open>
  \<^verbatim>\<open>DenseNet103.__init__\<close>. The six arguments are stored first (lines 193 to 198); the
  reads of these six attributes further down are written as the arguments themselves.
  The result is the constructed object, or the exception.
\<close>

definition DenseNet103_init ::
    "nat \<Rightarrow> nat \<Rightarrow> nat \<Rightarrow> nat \<Rightarrow> nat list \<Rightarrow> nat list \<Rightarrow> py_error + object" where
  "DenseNet103_init growth_rate n_pool n_classes n_channels_first n_layers_down n_layers_up =
     (let self = [''growth_rate'' \<mapsto> AInt growth_rate, ''n_pool'' \<mapsto> AInt n_pool,
                  ''n_classes'' \<mapsto> AInt n_classes, ''n_channels_first'' \<mapsto> AInt n_channels_first,
                  ''n_layers_down'' \<mapsto> AList n_layers_down, ''n_layers_up'' \<mapsto> AList n_layers_up]
      in
      if length n_layers_down \<noteq> n_pool
      then Inl (ValueError ''`n_layers_down` must be length `n_pool`'')
      else if length n_layers_up = n_pool
      then Inl (ValueError ''`n_layers_up` must be length `n_pool`'')
      else
        bindE (getattr self ''n_channels'') (\<lambda>a.
        bindE (as_int a) (\<lambda>n_channels.
        let self = self(''conv0'' \<mapsto> AConv \<lparr>in_channels = n_channels, out_channels = n_channels_first,
                                            kernel_size = 3, padding = 1, bias = True\<rparr>) in
        bindE (foldE (down_body growth_rate n_layers_down) (self, n_channels_first) [0..<n_pool])
          (\<lambda>(self, down_channels).
        bindE (getattr self ''dblock4'') (\<lambda>a.
        bindE (n_channels_out_of a) (\<lambda>bottleneck_in.
        let self = self(''bottleneck'' \<mapsto> ABlock (DenseBlock_init 15 bottleneck_in growth_rate True)) in
        bindE (getattr self ''bottleneck'') (\<lambda>a.
        bindE (n_channels_out_of a) (\<lambda>up_channels.
        bindE (foldE (up_body growth_rate n_layers_up) (self, up_channels) [0..<n_pool])
          (\<lambda>(self, up_channels).
        bindE (getattr self (''up_dblock'' @ str n_pool)) (\<lambda>a.
        bindE (n_channels_out_of a) (\<lambda>last_channels.
        Inr (self(''conv1'' \<mapsto> AConv \<lparr>in_channels = last_channels, out_channels = n_classes,
                                       kernel_size = 1, padding = 0, bias = True\<rparr>)))))))))))))"

text \<open>The skip tensor of decoder stage \<open>i\<close> (line 270): \<^verbatim>\<open>dblock_outs[-i]\<close>.\<close>

definition decoder_skip :: "'a tensor list \<Rightarrow> nat \<Rightarrow> py_error + 'a tensor" where
  "decoder_skip dblock_outs i = py_getitem dblock_outs (- int i)"

text \<open>The body of the first loop of \<^verbatim>\<open>forward\<close> (lines 253 to 259); the loop carries
  \<open>out\<close> and \<open>dblock_outs\<close>.\<close>

definition down_step ::
    "'a torch \<Rightarrow> 'a tensor \<times> 'a tensor list \<Rightarrow> nat \<Rightarrow> py_error + 'a tensor \<times> 'a tensor list" where
  "down_step lib s i =
     (case s of (out, dblock_outs) \<Rightarrow>
        bindE (getattr1 (''down_dblock'' @ str i)) (\<lambda>dblock.
        bindE (getattr1 (''td'' @ str i)) (\<lambda>td.
        bindE (call lib dblock out) (\<lambda>db_x.
        let dblock_outs = dblock_outs @ [db_x] in
        bindE (call lib td db_x) (\<lambda>out.
        Inr (out, dblock_outs))))))"

text \<open>The body of the second loop of \<^verbatim>\<open>forward\<close> (lines 268 to 274); the loop carries
  \<open>out\<close>. \<^verbatim>\<open>torch.cat([skip, up])\<close> names no axis: the library's default is axis 0.\<close>

definition up_step ::
    "'a torch \<Rightarrow> 'a tensor list \<Rightarrow> 'a tensor \<Rightarrow> nat \<Rightarrow> py_error + 'a tensor" where
  "up_step lib dblock_outs out i =
     bindE (getattr1 (''tu'' @ str i)) (\<lambda>tu.
     bindE (getattr1 (''up_dblock'' @ str i)) (\<lambda>ublock.
     bindE (decoder_skip dblock_outs i) (\<lambda>skip.
     bindE (call lib tu out) (\<lambda>up.
     bindE (torch_cat skip up 0) (\<lambda>cat.
     call lib ublock cat)))))"

text \<open>
  \<^verbatim>\<open>DenseNet103.forward\<close>. The method has no \<^verbatim>\<open>return\<close>: a call that raises nothing
  returns \<^verbatim>\<open>None\<close>, which is \<open>Inr None\<close> here; \<open>Inr (Some t)\<close> would be a returned tensor.
\<close>

definition DenseNet103_forward ::
    "'a torch \<Rightarrow> object \<Rightarrow> 'a tensor \<Rightarrow> py_error + 'a tensor option" where
  "DenseNet103_forward lib self x =
     bindE (getattr self ''conv0'') (\<lambda>conv0.
     bindE (call lib conv0 x) (\<lambda>in_conv.
     let out = in_conv in
     bindE (getattr self ''n_pool'') (\<lambda>a.
     bindE (as_int a) (\<lambda>n_pool.
     bindE (foldE (down_step lib) (out, []) [0..<n_pool]) (\<lambda>(out, dblock_outs).
     bindE (getattr self ''bottleneck'') (\<lambda>bottleneck.
     bindE (call lib bottleneck out) (\<lambda>bneck.
     let out = bneck in
     bindE (foldE (up_step lib dblock_outs) out [0..<n_pool]) (\<lambda>out.
     bindE (getattr self ''conv1'') (\<lambda>conv1.
     bindE (call lib conv1 out) (\<lambda>classif.
     Inr None))))))))))"

section \<open>Example inputs\<close>

text \<open>A backend all of whose operations give the entry \<open>v\<close>, and a tensor of a given
  shape whose entry in channel \<open>ch\<close> is \<open>1 + ch\<close>: the concrete inputs of the instances
  below.\<close>

definition const_torch :: "'a \<Rightarrow> 'a torch" where
  "const_torch v =
     \<lparr>batch_norm = (\<lambda>m x n c h w. v), relu = (\<lambda>x n c h w. v), conv2d = (\<lambda>m x n c h w. v),
      dropout2d = (\<lambda>m x n c h w. v), max_pool2d = (\<lambda>m x n c h w. v),
      conv_transpose2d = (\<lambda>m x n c h w. v)\<rparr>"

definition ramp :: "nat \<Rightarrow> nat \<Rightarrow> nat \<Rightarrow> nat \<Rightarrow> nat tensor" where
  "ramp b c h w = \<lparr>batch = b, chans = c, height = h, width = w,
                   elem = (\<lambda>n ch i j. 1 + ch)\<rparr>"

section \<open>Lemmas\<close>

subsection \<open>Results, names and ranges\<close>

lemma bindE_Inl: "bindE (Inl e) f = Inl e"
  by (simp add: bindE_def)

lemma bindE_Inr: "bindE (Inr v) f = f v"
  by (simp add: bindE_def)

lemma str_small: "str 0 = ''0''" "str (Suc 0) = ''1''" "str 2 = ''2''"
  by code_simp+

lemma upt_2: "[0..<2] = [0, 1]"
  by code_simp

subsection \<open>The constructor's branches\<close>

lemma init_down_length:
  "length n_layers_down \<noteq> n_pool \<Longrightarrow>
   DenseNet103_init growth_rate n_pool n_classes n_channels_first n_layers_down n_layers_up
     = Inl (ValueError ''`n_layers_down` must be length `n_pool`'')"
  by (simp add: DenseNet103_init_def)

lemma init_up_length:
  "length n_layers_down = n_pool \<Longrightarrow> length n_layers_up = n_pool \<Longrightarrow>
   DenseNet103_init growth_rate n_pool n_classes n_channels_first n_layers_down n_layers_up
     = Inl (ValueError ''`n_layers_up` must be length `n_pool`'')"
  by (simp add: DenseNet103_init_def)

lemma init_n_channels:
  "length n_layers_down = n_pool \<Longrightarrow> length n_layers_up \<noteq> n_pool \<Longrightarrow>
   DenseNet103_init growth_rate n_pool n_classes n_channels_first n_layers_down n_layers_up
     = Inl (AttributeError ''n_channels'')"
  by (simp add: DenseNet103_init_def getattr_def bindE_def)

subsection \<open>One layer, and the stack of a block\<close>

lemma DenseLayer_forward_matching:
  "chans x = n_channels \<Longrightarrow>
   \<exists>y. DenseLayer_forward lib (DenseLayer_init n_channels growth_rate) x = Inr y
     \<and> batch y = batch x \<and> chans y = chans x + growth_rate
     \<and> height y = height x \<and> width y = width x
     \<and> (\<forall>n c h w. c < chans x \<longrightarrow> elem y n c h w = elem x n c h w)"
  by (simp add: DenseLayer_forward_def DenseLayer_init_def BatchNorm2d_forward_def F_relu_def
      Conv2d_forward_def Dropout2d_forward_def torch_cat_def bindE_def)

lemma DenseLayer_forward_mismatch:
  "chans x \<noteq> n_channels \<Longrightarrow>
   DenseLayer_forward lib (DenseLayer_init n_channels growth_rate) x = Inl ShapeMismatchError"
  by (simp add: DenseLayer_forward_def DenseLayer_init_def BatchNorm2d_forward_def bindE_def)

text \<open>The loop of \<open>build_block\<close>, closed: layer \<open>i\<close> is built with \<open>c + i * g\<close> input
  channels.\<close>

lemma build_block_foldl:
  "foldl (\<lambda>(n_channels, layers) i.
            (n_channels + g, layers @ [DenseLayer_init n_channels g]))
         (c, []) [0..<n]
   = (c + n * g, map (\<lambda>i. DenseLayer_init (c + i * g) g) [0..<n])"
  by (induction n) (simp_all add: add.assoc)

lemma build_block_map:
  "build_block n c g = map (\<lambda>i. DenseLayer_init (c + i * g) g) [0..<n]"
  by (simp add: build_block_def build_block_foldl)

lemma Sequential_forward_snoc:
  "Sequential_forward lib (layers @ [l]) x
   = bindE (Sequential_forward lib layers x) (DenseLayer_forward lib l)"
  by (simp add: Sequential_forward_def)

lemma Sequential_raised:
  "foldl (\<lambda>r l. bindE r (DenseLayer_forward lib l)) (Inl e) layers = Inl e"
  by (induction layers) (simp_all add: bindE_Inl)

lemma Sequential_build_block:
  "chans x = c \<Longrightarrow>
   \<exists>y. Sequential_forward lib (build_block n c g) x = Inr y
     \<and> batch y = batch x \<and> chans y = c + n * g
     \<and> height y = height x \<and> width y = width x
     \<and> (\<forall>k ch h w. ch < c \<longrightarrow> elem y k ch h w = elem x k ch h w)"
proof (induction n)
  case 0
  then show ?case by (simp add: build_block_map Sequential_forward_def)
next
  case (Suc n)
  then obtain y where y: "Sequential_forward lib (build_block n c g) x = Inr y"
    "batch y = batch x" "chans y = c + n * g" "height y = height x" "width y = width x"
    "\<forall>k ch h w. ch < c \<longrightarrow> elem y k ch h w = elem x k ch h w"
    by blast
  from DenseLayer_forward_matching [of y "c + n * g" lib g] y(3)
  obtain z where z: "DenseLayer_forward lib (DenseLayer_init (c + n * g) g) y = Inr z"
    "batch z = batch y" "chans z = chans y + g" "height z = height y" "width z = width y"
    "\<forall>k ch h w. ch < chans y \<longrightarrow> elem z k ch h w = elem y k ch h w"
    by auto
  have "Sequential_forward lib (build_block (Suc n) c g) x = Inr z"
    using y(1) z(1) by (simp add: build_block_map Sequential_forward_snoc bindE_def)
  moreover have "\<forall>k ch h w. ch < c \<longrightarrow> elem z k ch h w = elem x k ch h w"
    using y(3,6) z(6) by simp
  ultimately show ?case using y z by (simp add: add.assoc)
qed

lemma Sequential_build_block_mismatch:
  assumes "chans x \<noteq> c" and "0 < n"
  shows "Sequential_forward lib (build_block n c g) x = Inl ShapeMismatchError"
proof -
  from \<open>0 < n\<close> have "[0..<n] = 0 # [Suc 0..<n]"
    by (simp add: upt_conv_Cons)
  then have "build_block n c g
      = DenseLayer_init c g # map (\<lambda>i. DenseLayer_init (c + i * g) g) [Suc 0..<n]"
    by (simp add: build_block_map)
  then show ?thesis
    using assms(1)
    by (simp add: Sequential_forward_def bindE_Inr DenseLayer_forward_mismatch Sequential_raised)
qed

subsection \<open>The unbound name of \<open>DenseBlock.forward\<close>\<close>

lemma load_keep_input:
  "load_name [(''self'', PyObject), (''x'', PyTensor x), (''out'', PyTensor out)] ''keep_input''
   = Inl (NameError ''keep_input'')"
  by (simp add: load_name_def module_globals_def)

lemma DenseBlock_forward_cases:
  "DenseBlock_forward lib self x =
     (case Sequential_forward lib (db_block self) x of
        Inl e \<Rightarrow> Inl e
      | Inr out \<Rightarrow> Inl (NameError ''keep_input''))"
  by (simp add: DenseBlock_forward_def bindE_def load_keep_input Let_def split: sum.splits)

lemma DenseBlock_forward_matching:
  "chans x = n_channels \<Longrightarrow>
   DenseBlock_forward lib (DenseBlock_init n_layers n_channels growth_rate keep_input) x
   = Inl (NameError ''keep_input'')"
  using Sequential_build_block [of x n_channels lib n_layers growth_rate]
  by (auto simp add: DenseBlock_forward_cases DenseBlock_init_def)

lemma DenseBlock_forward_mismatch:
  "chans x \<noteq> n_channels \<Longrightarrow> 0 < n_layers \<Longrightarrow>
   DenseBlock_forward lib (DenseBlock_init n_layers n_channels growth_rate keep_input) x
   = Inl ShapeMismatchError"
  by (simp add: DenseBlock_forward_cases DenseBlock_init_def Sequential_build_block_mismatch)

section \<open>The claims\<close>

subsection \<open>Construction of the network\<close>

text \<open>
  C9. For every configuration \<^verbatim>\<open>DenseNet103.__init__\<close> raises and yields no network
  object. When both lists have length \<open>n_pool\<close> the second branch of the length check
  (line 202, which tests \<^verbatim>\<open>==\<close>) raises the \<open>ValueError\<close>; when the check passes
  (\<open>n_layers_down\<close> has length \<open>n_pool\<close> and \<open>n_layers_up\<close> has not) line 207 reads
  \<^verbatim>\<open>self.n_channels\<close>, which was never set, and raises \<open>AttributeError\<close>.
\<close>

theorem DenseNet103_init_always_raises:
  "(\<exists>e. DenseNet103_init growth_rate n_pool n_classes n_channels_first n_layers_down n_layers_up
          = Inl e)
   \<and> (length n_layers_down = n_pool \<and> length n_layers_up = n_pool \<longrightarrow>
        DenseNet103_init growth_rate n_pool n_classes n_channels_first n_layers_down n_layers_up
          = Inl (ValueError ''`n_layers_up` must be length `n_pool`''))
   \<and> (length n_layers_down = n_pool \<and> length n_layers_up \<noteq> n_pool \<longrightarrow>
        DenseNet103_init growth_rate n_pool n_classes n_channels_first n_layers_down n_layers_up
          = Inl (AttributeError ''n_channels''))"
proof (intro conjI impI)
  show "\<exists>e. DenseNet103_init growth_rate n_pool n_classes n_channels_first n_layers_down
              n_layers_up = Inl e"
  proof (cases "length n_layers_down = n_pool")
    case False
    then show ?thesis by (simp add: init_down_length)
  next
    case True
    show ?thesis
    proof (cases "length n_layers_up = n_pool")
      case True
      with \<open>length n_layers_down = n_pool\<close> show ?thesis by (simp add: init_up_length)
    next
      case False
      with \<open>length n_layers_down = n_pool\<close> show ?thesis by (simp add: init_n_channels)
    qed
  qed
next
  assume "length n_layers_down = n_pool \<and> length n_layers_up = n_pool"
  then show "DenseNet103_init growth_rate n_pool n_classes n_channels_first n_layers_down
               n_layers_up = Inl (ValueError ''`n_layers_up` must be length `n_pool`'')"
    by (simp add: init_up_length)
next
  assume "length n_layers_down = n_pool \<and> length n_layers_up \<noteq> n_pool"
  then show "DenseNet103_init growth_rate n_pool n_classes n_channels_first n_layers_down
               n_layers_up = Inl (AttributeError ''n_channels'')"
    by (simp add: init_n_channels)
qed

text \<open>C9 at two configurations with three pooling stages: both lists of length 3, and
  an upsampling list of length 4.\<close>

theorem DenseNet103_init_always_raises_witness:
  "length [4, 5, 7 :: nat] = 3 \<and> length [7, 5, 4 :: nat] = 3 \<and> length [7, 5, 4, 4 :: nat] \<noteq> 3
   \<and> DenseNet103_init 16 3 2 48 [4, 5, 7] [7, 5, 4]
       = Inl (ValueError ''`n_layers_up` must be length `n_pool`'')
   \<and> DenseNet103_init 16 3 2 48 [4, 5, 7] [7, 5, 4, 4] = Inl (AttributeError ''n_channels'')"
proof -
  have a: "DenseNet103_init 16 3 2 48 [4, 5, 7] [7, 5, 4]
       = Inl (ValueError ''`n_layers_up` must be length `n_pool`'')"
    using DenseNet103_init_always_raises [of 16 3 2 48 "[4, 5, 7]" "[7, 5, 4]"] by simp
  have b: "DenseNet103_init 16 3 2 48 [4, 5, 7] [7, 5, 4, 4] = Inl (AttributeError ''n_channels'')"
    using DenseNet103_init_always_raises [of 16 3 2 48 "[4, 5, 7]" "[7, 5, 4, 4]"] by simp
  show ?thesis using a b by simp
qed

text \<open>
  C1. The claim: the network built with \<open>growth_rate = 16\<close>, two pooling stages, three
  classes, eight first channels and the layer lists \<open>[2, 2]\<close> and \<open>[2, 2]\<close> is
  constructed, and its forward pass maps an input of shape \<open>(1, 3, 64, 64)\<close> to an output
  of that shape. The code: the constructor raises the \<open>ValueError\<close> of line 203 for this
  configuration, so there is no network to run. (\<^verbatim>\<open>__init__\<close> has no parameter
  \<open>bottleneck_layers\<close>; the bottleneck has 15 layers, line 222.)
\<close>

theorem end_to_end_configuration_raises:
  "DenseNet103_init 16 2 3 8 [2, 2] [2, 2]
     = Inl (ValueError ''`n_layers_up` must be length `n_pool`'')"
  by (simp add: DenseNet103_init_def)

text \<open>
  C2. The claim: construction fails with a configuration error exactly when the length
  of one of the two lists differs from \<open>n_pool\<close>. The code, with one pooling stage: the
  lists \<open>[4]\<close> and \<open>[4]\<close>, both of length 1, raise the \<open>ValueError\<close> of line 203; the
  lists \<open>[4]\<close> and \<open>[4, 5]\<close>, the second of the wrong length, pass the length check and
  fail on line 207 with an \<open>AttributeError\<close> instead.
\<close>

theorem length_check_inverted:
  "DenseNet103_init 16 1 2 48 [4] [4] = Inl (ValueError ''`n_layers_up` must be length `n_pool`'')
   \<and> DenseNet103_init 16 1 2 48 [4] [4, 5] = Inl (AttributeError ''n_channels'')"
  by (simp add: DenseNet103_init_def getattr_def bindE_def)

text \<open>
  C3. The claim: in the constructed network every stage's declared output channel count
  is the next stage's declared input channel count; the bottleneck takes the last encoder
  stage's output, and each decoder block takes its TransitionUp's output channels plus
  the channels of the matching encoder skip. The code, for \<open>growth_rate = 16\<close>, two
  pooling stages, eight first channels and encoder lists \<open>[2, 2]\<close>: no configuration
  gives a constructed network (here the \<open>AttributeError\<close> of line 207); the encoder loop
  run on its own stores the last block as \<open>down_dblock1\<close> with 72 output channels, while
  the bottleneck of line 223 reads \<open>dblock4\<close>, which no loop stores; and the decoder loop
  run on its own from the 312 channels a 15-layer bottleneck on 72 channels would
  declare builds stage 0 as \<open>TransitionUp(312)\<close> and \<open>DenseBlock(n_channels = 312)\<close>: the
  block's declared input is the TransitionUp's output alone, without the 72 channels of
  the skip.
\<close>

theorem declared_channel_chain_breaks:
  "DenseNet103_init 16 2 3 8 [2, 2] [2, 2, 2] = Inl (AttributeError ''n_channels'')
   \<and> bindE (foldE (down_body 16 [2, 2]) (Map.empty, 8) [0..<2])
        (\<lambda>(self, down_channels). bindE (getattr self ''down_dblock1'') n_channels_out_of) = Inr 72
   \<and> bindE (foldE (down_body 16 [2, 2]) (Map.empty, 8) [0..<2])
        (\<lambda>(self, down_channels). getattr self ''dblock4'') = Inl (AttributeError ''dblock4'')
   \<and> db_n_channels_out (DenseBlock_init 15 72 16 True) = 312
   \<and> bindE (up_body 16 [2, 2, 2] (Map.empty, 312) 0)
        (\<lambda>(self, up_channels). getattr self ''tu0'') = Inr (AUp (TransitionUp_init 312 None))
   \<and> bindE (up_body 16 [2, 2, 2] (Map.empty, 312) 0)
        (\<lambda>(self, up_channels). getattr self ''up_dblock0'')
      = Inr (ABlock (DenseBlock_init 2 312 16 False))
   \<and> db_n_channels (DenseBlock_init 2 312 16 False) = 312
   \<and> tu_n_channels_out (TransitionUp_init 312 None) = 312"
  by (simp add: DenseNet103_init_def getattr_def bindE_def down_body_def up_body_def
      py_getitem_def str_small upt_2 n_channels_out_of_def DenseBlock_init_def
      TransitionUp_init_def Let_def)

subsection \<open>DenseLayer and TransitionDown\<close>

text \<open>
  C6. For every input tensor of shape \<open>(B, C, H, W)\<close> whose channel count \<open>C\<close> is the
  layer's \<open>n_channels\<close>, \<^verbatim>\<open>DenseLayer.forward\<close> returns a tensor of shape
  \<open>(B, C + growth_rate, H, W)\<close> whose first \<open>C\<close> channels are the input's, entry for
  entry. This is for every backend: whatever the library computes for the new channels.
\<close>

theorem DenseLayer_forward_shape_and_skip:
  "chans x = n_channels \<Longrightarrow>
   \<exists>y. DenseLayer_forward lib (DenseLayer_init n_channels growth_rate) x = Inr y
     \<and> batch y = batch x \<and> chans y = chans x + growth_rate
     \<and> height y = height x \<and> width y = width x
     \<and> (\<forall>n c h w. c < chans x \<longrightarrow> elem y n c h w = elem x n c h w)"
  by (simp add: DenseLayer_forward_def DenseLayer_init_def BatchNorm2d_forward_def F_relu_def
      Conv2d_forward_def Dropout2d_forward_def torch_cat_def bindE_def)

text \<open>C6 at an input of shape \<open>(2, 3, 5, 4)\<close> and growth rate 16: the output has 19
  channels, and its entry in channel 2 is the input's, which is 3 (the backend's entries
  are all 0).\<close>

theorem DenseLayer_forward_shape_and_skip_witness:
  "chans (ramp 2 3 5 4) = 3
   \<and> (\<exists>y. DenseLayer_forward (const_torch 0) (DenseLayer_init 3 16) (ramp 2 3 5 4) = Inr y
        \<and> batch y = 2 \<and> chans y = 19 \<and> height y = 5 \<and> width y = 4
        \<and> elem y 1 2 4 3 = 3)"
  using DenseLayer_forward_shape_and_skip [of "ramp 2 3 5 4" 3 "const_torch 0" 16]
  by (auto simp add: ramp_def)

text \<open>
  C8. For every input tensor of shape \<open>(B, C, H, W)\<close> whose channel count is the
  module's \<open>n_channels_in\<close>, \<^verbatim>\<open>TransitionDown.forward\<close> returns a tensor of shape
  \<open>(B, C_out, H div 2, W div 2)\<close>, where \<open>C_out\<close> is the module's \<open>n_channels_out\<close>: the
  argument given to the constructor, and \<open>n_channels_in\<close> when none was given.
\<close>

theorem TransitionDown_forward_shape:
  "chans x = n_channels_in \<Longrightarrow>
   \<exists>y. TransitionDown_forward lib (TransitionDown_init n_channels_in n_channels_out) x = Inr y
     \<and> batch y = batch x
     \<and> chans y = td_n_channels_out (TransitionDown_init n_channels_in n_channels_out)
     \<and> td_n_channels_out (TransitionDown_init n_channels_in n_channels_out)
         = (case n_channels_out of Some c \<Rightarrow> c | None \<Rightarrow> n_channels_in)
     \<and> height y = height x div 2 \<and> width y = width x div 2"
  by (simp add: TransitionDown_forward_def TransitionDown_init_def BatchNorm2d_forward_def
      F_relu_def Conv2d_forward_def Dropout2d_forward_def MaxPool2d_forward_def bindE_def Let_def
      split: option.splits)

text \<open>C8 at an input of shape \<open>(2, 3, 7, 9)\<close>, with no output channel count and with
  the output channel count 6: the spatial sides become 3 and 4.\<close>

theorem TransitionDown_forward_shape_witness:
  "chans (ramp 2 3 7 9) = 3
   \<and> (\<exists>y. TransitionDown_forward (const_torch 0) (TransitionDown_init 3 None) (ramp 2 3 7 9) = Inr y
        \<and> batch y = 2 \<and> chans y = 3 \<and> height y = 3 \<and> width y = 4)
   \<and> (\<exists>y. TransitionDown_forward (const_torch 0) (TransitionDown_init 3 (Some 6)) (ramp 2 3 7 9)
            = Inr y
        \<and> batch y = 2 \<and> chans y = 6 \<and> height y = 3 \<and> width y = 4)"
  using TransitionDown_forward_shape [of "ramp 2 3 7 9" 3 "const_torch 0" None]
    TransitionDown_forward_shape [of "ramp 2 3 7 9" 3 "const_torch 0" "Some 6"]
  by (auto simp add: ramp_def)

subsection \<open>DenseBlock\<close>

text \<open>
  C4. The claim: a DenseBlock built with \<open>keep_input = False\<close> emits a tensor with
  \<open>n_layers * growth_rate\<close> channels, the last channels of the stack's concatenation.
  The code, for the block of two layers on three input channels with growth rate 16 and
  an input of shape \<open>(1, 3, 4, 4)\<close>: the stack runs, then line 149 reads the bare name
  \<open>keep_input\<close>, which is bound neither in \<^verbatim>\<open>forward\<close> nor in the module, and the call
  raises \<open>NameError\<close>; no tensor is emitted.
\<close>

theorem DenseBlock_forward_without_input_raises:
  "DenseBlock_forward (const_torch 0) (DenseBlock_init 2 3 16 False) (ramp 1 3 4 4)
   = Inl (NameError ''keep_input'')"
  by (rule DenseBlock_forward_matching) (simp add: ramp_def)

text \<open>
  C5. The claim: a DenseBlock built with \<open>keep_input = True\<close> emits a tensor with
  \<open>n_channels + n_layers * growth_rate\<close> channels, the block's declared
  \<open>n_channels_out\<close>. The code, for the block of four layers on eight input channels with
  growth rate 16 (declared output 72 channels) and an input of shape \<open>(2, 8, 6, 6)\<close>: the
  call raises the same \<open>NameError\<close>; no tensor is emitted.
\<close>

theorem DenseBlock_forward_with_input_raises:
  "db_n_channels_out (DenseBlock_init 4 8 16 True) = 72
   \<and> DenseBlock_forward (const_torch 0) (DenseBlock_init 4 8 16 True) (ramp 2 8 6 6)
       = Inl (NameError ''keep_input'')"
proof -
  have "DenseBlock_forward (const_torch 0) (DenseBlock_init 4 8 16 True) (ramp 2 8 6 6)
       = Inl (NameError ''keep_input'')"
    by (rule DenseBlock_forward_matching) (simp add: ramp_def)
  then show ?thesis by (simp add: DenseBlock_init_def)
qed

text \<open>
  C10, as the claim states it: for every input tensor \<^verbatim>\<open>DenseBlock.forward\<close> raises the
  \<open>NameError\<close>. This fails for the one-layer block on three channels given an input with
  five channels: the layer stack runs first (line 148) and its batch normalization
  rejects the input, so the exception is the library's shape error, not a \<open>NameError\<close>.
\<close>

theorem DenseBlock_forward_NameError_counterexample:
  "DenseBlock_forward (const_torch 0) (DenseBlock_init 1 3 16 True) (ramp 1 5 4 4)
     = Inl ShapeMismatchError
   \<and> DenseBlock_forward (const_torch 0) (DenseBlock_init 1 3 16 True) (ramp 1 5 4 4)
     \<noteq> Inl (NameError ''keep_input'')"
proof -
  have "DenseBlock_forward (const_torch 0) (DenseBlock_init 1 3 16 True) (ramp 1 5 4 4)
     = Inl ShapeMismatchError"
    by (rule DenseBlock_forward_mismatch) (simp_all add: ramp_def)
  then show ?thesis by simp
qed

text \<open>
  C10, amended. For every DenseBlock, whatever its \<open>keep_input\<close> flag (which \<^verbatim>\<open>__init__\<close>
  does not store), and every input tensor, \<^verbatim>\<open>DenseBlock.forward\<close> raises and emits no
  tensor. When the layer stack \<^verbatim>\<open>self.block(x)\<close> of line 148 returns, the exception is the
  \<open>NameError\<close> for the unbound name \<open>keep_input\<close> of line 149; when the stack itself
  raises, that exception is the one \<^verbatim>\<open>forward\<close> raises, and the name is never read.
\<close>

theorem DenseBlock_forward_never_returns:
  "(\<exists>e. DenseBlock_forward lib self x = Inl e)
   \<and> (\<forall>out. Sequential_forward lib (db_block self) x = Inr out \<longrightarrow>
          DenseBlock_forward lib self x = Inl (NameError ''keep_input''))
   \<and> (\<forall>e. Sequential_forward lib (db_block self) x = Inl e \<longrightarrow>
          DenseBlock_forward lib self x = Inl e)"
proof (intro conjI allI impI)
  show "\<exists>e. DenseBlock_forward lib self x = Inl e"
    by (simp add: DenseBlock_forward_cases split: sum.splits)
next
  fix out
  assume "Sequential_forward lib (db_block self) x = Inr out"
  then show "DenseBlock_forward lib self x = Inl (NameError ''keep_input'')"
    by (simp add: DenseBlock_forward_cases)
next
  fix e
  assume "Sequential_forward lib (db_block self) x = Inl e"
  then show "DenseBlock_forward lib self x = Inl e"
    by (simp add: DenseBlock_forward_cases)
qed

text \<open>
  C10, amended, at three calls. A block with no layer, built with \<open>keep_input = True\<close> on
  three channels, given an input with five: the empty stack returns the input and the
  call raises the \<open>NameError\<close>. A block of three layers on four channels with growth rate
  12, built with \<open>keep_input = False\<close>, given an input with four channels: the stack
  returns and the call raises the \<open>NameError\<close>. The same block built with
  \<open>keep_input = True\<close>, given an input with seven channels: the stack raises and the
  call raises the stack's exception.
\<close>

theorem DenseBlock_forward_never_returns_witness:
  "Sequential_forward (const_torch 0) (db_block (DenseBlock_init 0 3 16 True)) (ramp 1 5 4 4)
     = Inr (ramp 1 5 4 4)
   \<and> DenseBlock_forward (const_torch 0) (DenseBlock_init 0 3 16 True) (ramp 1 5 4 4)
       = Inl (NameError ''keep_input'')
   \<and> (\<exists>out. Sequential_forward (const_torch 0) (db_block (DenseBlock_init 3 4 12 False))
               (ramp 1 4 8 8) = Inr out)
   \<and> DenseBlock_forward (const_torch 0) (DenseBlock_init 3 4 12 False) (ramp 1 4 8 8)
       = Inl (NameError ''keep_input'')
   \<and> Sequential_forward (const_torch 0) (db_block (DenseBlock_init 3 4 12 True)) (ramp 1 7 8 8)
       = Inl ShapeMismatchError
   \<and> DenseBlock_forward (const_torch 0) (DenseBlock_init 3 4 12 True) (ramp 1 7 8 8)
       = Inl ShapeMismatchError"
proof -
  have s0: "Sequential_forward (const_torch 0) (db_block (DenseBlock_init 0 3 16 True))
              (ramp 1 5 4 4) = Inr (ramp 1 5 4 4)"
    by (simp add: DenseBlock_init_def build_block_map Sequential_forward_def)
  have s1: "\<exists>out. Sequential_forward (const_torch 0) (db_block (DenseBlock_init 3 4 12 False))
              (ramp 1 4 8 8) = Inr out"
    using Sequential_build_block [of "ramp 1 4 8 8" 4 "const_torch 0" 3 12]
    by (auto simp add: DenseBlock_init_def ramp_def)
  have s2: "Sequential_forward (const_torch 0) (db_block (DenseBlock_init 3 4 12 True))
              (ramp 1 7 8 8) = Inl ShapeMismatchError"
    using Sequential_build_block_mismatch [of "ramp 1 7 8 8" 4 3 "const_torch 0" 12]
    by (simp add: DenseBlock_init_def ramp_def)
  have f0: "DenseBlock_forward (const_torch 0) (DenseBlock_init 0 3 16 True) (ramp 1 5 4 4)
       = Inl (NameError ''keep_input'')"
    using DenseBlock_forward_never_returns
            [of "const_torch 0" "DenseBlock_init 0 3 16 True" "ramp 1 5 4 4"] s0
    by blast
  have f1: "DenseBlock_forward (const_torch 0) (DenseBlock_init 3 4 12 False) (ramp 1 4 8 8)
       = Inl (NameError ''keep_input'')"
    using DenseBlock_forward_never_returns
            [of "const_torch 0" "DenseBlock_init 3 4 12 False" "ramp 1 4 8 8"] s1
    by blast
  have f2: "DenseBlock_forward (const_torch 0) (DenseBlock_init 3 4 12 True) (ramp 1 7 8 8)
       = Inl ShapeMismatchError"
    using DenseBlock_forward_never_returns
            [of "const_torch 0" "DenseBlock_init 3 4 12 True" "ramp 1 7 8 8"] s2
    by blast
  show ?thesis
    by (intro conjI s0 s1 s2 f0 f1 f2)
qed

subsection \<open>The forward pass of the network\<close>

text \<open>
  C7. The claim: decoder stage \<open>i\<close> concatenates, along the channel axis, the cached
  encoder output at index \<open>n_pool - 1 - i\<close>. The code, with two pooling stages and the
  cache \<open>[t0, t1]\<close> (\<open>t0\<close> of shape \<open>(1, 40, 64, 64)\<close>, \<open>t1\<close> of shape \<open>(1, 72, 32, 32)\<close>):
  line 270 takes \<^verbatim>\<open>dblock_outs[-i]\<close>, which is \<open>t0\<close> for stage 0 (the claim: \<open>t1\<close>) and
  \<open>t1\<close> for stage 1 (the claim: \<open>t0\<close>); line 273 concatenates along axis 0, so two
  tensors of shape \<open>(1, 72, 32, 32)\<close> give batch size 2 and still 72 channels; and the
  loop body, as the whole of \<^verbatim>\<open>forward\<close> on an object with \<open>n_pool = 2\<close>, raises
  \<open>TypeError\<close> at its first \<^verbatim>\<open>getattr\<close>, which is called without the object, before
  any skip is read.
\<close>

theorem decoder_skip_pairing_off_by_one:
  "decoder_skip [ramp 1 40 64 64, ramp 1 72 32 32] 0 = Inr (ramp 1 40 64 64)
   \<and> decoder_skip [ramp 1 40 64 64, ramp 1 72 32 32] 0
       \<noteq> Inr ([ramp 1 40 64 64, ramp 1 72 32 32] ! (2 - 1 - 0))
   \<and> decoder_skip [ramp 1 40 64 64, ramp 1 72 32 32] 1 = Inr (ramp 1 72 32 32)
   \<and> decoder_skip [ramp 1 40 64 64, ramp 1 72 32 32] 1
       \<noteq> Inr ([ramp 1 40 64 64, ramp 1 72 32 32] ! (2 - 1 - 1))
   \<and> bindE (torch_cat (ramp 1 72 32 32) (ramp 1 72 32 32) 0) (\<lambda>t. Inr (batch t, chans t))
       = Inr (2, 72)
   \<and> up_step (const_torch 0) [ramp 1 40 64 64, ramp 1 72 32 32] (ramp 1 312 16 16) 0
       = Inl (TypeError ''getattr expected at least 2 arguments, got 1'')
   \<and> DenseNet103_forward (const_torch 0)
        [''n_pool'' \<mapsto> AInt 2,
         ''conv0'' \<mapsto> AConv \<lparr>in_channels = 3, out_channels = 8, kernel_size = 3,
                               padding = 1, bias = True\<rparr>]
        (ramp 1 3 64 64)
       = Inl (TypeError ''getattr expected at least 2 arguments, got 1'')"
  by (simp add: decoder_skip_def py_getitem_def ramp_def torch_cat_def bindE_def up_step_def
      getattr1_def DenseNet103_forward_def getattr_def call_def Conv2d_forward_def as_int_def
      down_step_def upt_rec [of 0] Let_def)

end
